theory Spec2Isabelle
  imports Main
begin

section \<open>The Indian market data loader (multi\_market\_loader.py)\<close>

text \<open>
  The module has one class, \<open>IndianMarketDataLoader\<close>, with a class constant
  \<open>INDIAN_MARKET\<close> and three methods: \<open>download_market_data\<close>,
  \<open>download_indian_market\<close> and \<open>get_market_info\<close>. The first two print to the
  console and call an external quote provider (\<open>yf.Ticker(symbol).history(start, end)\<close>);
  they return a pandas table or raise.

  The embedding makes each of these explicit:
  \<^item> a raised exception is the \<open>Inl\<close> of a sum, a returned table the \<open>Inr\<close>;
  \<^item> everything the method does to the outside world is an \<open>event\<close>, and a method
    returns the list of its events in the order they happen, next to its result;
  \<^item> the provider is a parameter: a function from the symbol and the two dates to what
    the call raises or returns.
\<close>

subsection \<open>Strings\<close>

text \<open>
  Strings are byte strings (UTF-8). \<open>str.lower\<close> is modelled on the ASCII letters and
  leaves every other byte as it is. Python also maps letters outside ASCII; none of
  them becomes a letter of \<open>open\<close>, \<open>high\<close>, \<open>low\<close>, \<open>close\<close> or \<open>volume\<close>,
  so which labels turn into one of these five names does not depend on it.
\<close>

definition lower_char :: "char \<Rightarrow> char" where
  "lower_char c =
     (case map_of (zip ''ABCDEFGHIJKLMNOPQRSTUVWXYZ'' ''abcdefghijklmnopqrstuvwxyz'') c of
        None \<Rightarrow> c
      | Some l \<Rightarrow> l)"

definition lower :: "string \<Rightarrow> string" where
  "lower s = map lower_char s"

text \<open>The decimal text of a natural number, as \<open>str(n)\<close> and \<open>f"{n}"\<close> give it.\<close>

function string_of_nat :: "nat \<Rightarrow> string" where
  "string_of_nat n =
     (if n < 10 then [''0123456789'' ! n]
      else string_of_nat (n div 10) @ [''0123456789'' ! (n mod 10)])"
  by pat_completeness auto
termination
  by (relation "measure id") auto

subsection \<open>Exceptions, tables, events\<close>

text \<open>
  An exception object: its class name and the text \<open>str(e)\<close> gives for it. All
  exceptions here are instances of \<open>Exception\<close>, the ones \<open>except Exception\<close> catches.
\<close>

datatype exn = Exception (cls: string) (str: string)

definition ValueError :: "string \<Rightarrow> exn" where
  "ValueError msg = Exception ''ValueError'' msg"

text \<open>\<open>str\<close> of a \<open>KeyError\<close> is the \<open>repr\<close> of the key (quoted).\<close>

definition KeyError :: "string \<Rightarrow> exn" where
  "KeyError k = Exception ''KeyError'' ([CHR 0x27] @ k @ [CHR 0x27])"

text \<open>
  A \<open>pandas.DataFrame\<close>: the row labels (\<open>index\<close>, here the trading dates) and the
  columns in their order, each a label with one value per row. Labels need not be
  distinct; pandas allows a label to occur twice.
\<close>

record ('d, 'v) DataFrame =
  index :: "'d list"
  cols :: "(string \<times> 'v list) list"

definition columns :: "('d, 'v) DataFrame \<Rightarrow> string list" where
  "columns df = map fst (cols df)"

text \<open>\<open>len(df)\<close> is the number of rows.\<close>

definition len :: "('d, 'v) DataFrame \<Rightarrow> nat" where
  "len df = length (index df)"

text \<open>\<open>df.empty\<close>: true when any axis has length 0.\<close>

definition empty_df :: "('d, 'v) DataFrame \<Rightarrow> bool" where
  "empty_df df \<longleftrightarrow> index df = [] \<or> cols df = []"

text \<open>\<open>df.columns = names\<close> relabels the columns; the lengths must agree.\<close>

definition set_columns :: "('d, 'v) DataFrame \<Rightarrow> string list \<Rightarrow> exn + ('d, 'v) DataFrame" where
  "set_columns df names =
     (if length names \<noteq> length (cols df)
      then Inl (ValueError ''Length mismatch'')
      else Inr (df\<lparr>cols := zip names (map snd (cols df))\<rparr>))"

text \<open>
  \<open>df[labels]\<close> with a list of labels: for each label in turn, every column carrying
  it, in table order; \<open>KeyError\<close> when a label has no column. The rows are kept.
\<close>

definition getitem :: "('d, 'v) DataFrame \<Rightarrow> string list \<Rightarrow> exn + ('d, 'v) DataFrame" where
  "getitem df labels =
     (case filter (\<lambda>l. l \<notin> set (columns df)) labels of
        [] \<Rightarrow> Inr (df\<lparr>cols := concat (map (\<lambda>l. filter (\<lambda>c. fst c = l) (cols df)) labels)\<rparr>)
      | l # _ \<Rightarrow> Inl (KeyError l))"

text \<open>What a method does to the outside: a line printed, or a call to the provider.\<close>

datatype event =
  Printed string
| ProviderCall string string string

type_synonym ('d, 'v) provider = "string \<Rightarrow> string \<Rightarrow> string \<Rightarrow> exn + ('d, 'v) DataFrame"

subsection \<open>The class constant\<close>

definition INDIAN_MARKET :: "string \<rightharpoonup> string" where
  "INDIAN_MARKET = map_of [(''IRFC'', ''IRFC.NS'')]"

subsection \<open>download\_market\_data\<close>

definition required_cols :: "string list" where
  "required_cols = [''open'', ''high'', ''low'', ''close'', ''volume'']"

text \<open>
  The body of the \<open>try\<close> block (lines 44 to 59): the provider call, the emptiness
  check, the relabelling, the column check, the notice and the selection.
\<close>

definition try_body ::
  "('d, 'v) provider \<Rightarrow> string \<Rightarrow> string \<Rightarrow> string \<Rightarrow> string
     \<Rightarrow> event list \<times> (exn + ('d, 'v) DataFrame)" where
  "try_body provider market_code symbol start_date end_date =
     (case provider symbol start_date end_date of
        Inl e \<Rightarrow> ([ProviderCall symbol start_date end_date], Inl e)
      | Inr data \<Rightarrow>
          if empty_df data
          then ([ProviderCall symbol start_date end_date],
                Inl (ValueError (''No data found for '' @ market_code @ '' ('' @ symbol @ '')'')))
          else
            (case set_columns data (map lower (columns data)) of
               Inl e \<Rightarrow> ([ProviderCall symbol start_date end_date], Inl e)
             | Inr data' \<Rightarrow>
                 if \<not> list_all (\<lambda>col. col \<in> set (columns data')) required_cols
                 then ([ProviderCall symbol start_date end_date],
                       Inl (ValueError (''Missing required columns for '' @ market_code)))
                 else
                   ([ProviderCall symbol start_date end_date,
                     Printed ([CHR 0xE2, CHR 0x9C, CHR 0x93] @ '' Downloaded ''
                              @ string_of_nat (len data')
                              @ '' samples for Indian market (IRFC)'')],
                    getitem data' required_cols)))"

text \<open>The diagnostic of the \<open>except\<close> clause (line 62).\<close>

definition failure_notice :: "exn \<Rightarrow> string" where
  "failure_notice e =
     [CHR 0xE2, CHR 0x9D, CHR 0x8C] @ '' Failed to download Indian market data: '' @ str e"

definition warning_notice :: "string \<Rightarrow> string" where
  "warning_notice market_code =
     ''Warning: Only IRFC (Indian) market supported. Using IRFC instead of '' @ market_code"

definition download_market_data ::
  "('d, 'v) provider \<Rightarrow> string \<Rightarrow> string \<Rightarrow> string
     \<Rightarrow> event list \<times> (exn + ('d, 'v) DataFrame)" where
  "download_market_data provider market_code0 start_date end_date =
     (let (out1, market_code) =
            (if INDIAN_MARKET market_code0 = None
             then ([Printed (warning_notice market_code0)], ''IRFC'')
             else ([], market_code0))
      in case INDIAN_MARKET market_code of
           None \<Rightarrow> (out1, Inl (KeyError market_code))
         | Some symbol \<Rightarrow>
             (let out2 = out1 @ [Printed (''Downloading Indian market data ('' @ symbol
                                          @ '') from '' @ start_date @ '' to '' @ end_date
                                          @ ''...'')];
                  (out3, res) = try_body provider market_code symbol start_date end_date
              in (case res of
                    Inl e \<Rightarrow> (out2 @ out3 @ [Printed (failure_notice e)], Inl e)
                  | Inr r \<Rightarrow> (out2 @ out3, Inr r))))"

subsection \<open>download\_indian\_market\<close>

definition download_indian_market ::
  "('d, 'v) provider \<Rightarrow> string \<Rightarrow> string \<Rightarrow> event list \<times> (exn + ('d, 'v) DataFrame)" where
  "download_indian_market provider start_date end_date =
     (let out0 = [Printed (''Downloading Indian market (IRFC - Indian Railway Finance Corporation) data from ''
                           @ start_date @ '' to '' @ end_date @ ''...'')];
          (out1, res) = download_market_data provider ''IRFC'' start_date end_date
      in (out0 @ out1, res))"

subsection \<open>Default arguments\<close>

text \<open>
  A call may omit arguments; \<open>None\<close> stands for an omitted argument, which takes the
  default of the \<open>def\<close> line (lines 24 and 65).
\<close>

definition download_market_data_call ::
  "('d, 'v) provider \<Rightarrow> string option \<Rightarrow> string option \<Rightarrow> string option
     \<Rightarrow> event list \<times> (exn + ('d, 'v) DataFrame)" where
  "download_market_data_call provider market_code start_date end_date =
     download_market_data provider
       (case market_code of None \<Rightarrow> ''IRFC'' | Some c \<Rightarrow> c)
       (case start_date of None \<Rightarrow> ''2005-01-01'' | Some s \<Rightarrow> s)
       (case end_date of None \<Rightarrow> ''2022-03-31'' | Some e \<Rightarrow> e)"

definition download_indian_market_call ::
  "('d, 'v) provider \<Rightarrow> string option \<Rightarrow> string option
     \<Rightarrow> event list \<times> (exn + ('d, 'v) DataFrame)" where
  "download_indian_market_call provider start_date end_date =
     download_indian_market provider
       (case start_date of None \<Rightarrow> ''2005-01-01'' | Some s \<Rightarrow> s)
       (case end_date of None \<Rightarrow> ''2022-03-31'' | Some e \<Rightarrow> e)"

subsection \<open>get\_market\_info\<close>

text \<open>
  The method builds a dictionary of dictionaries and returns it; it prints nothing and
  calls nothing, so its list of events is empty.
\<close>

definition get_market_info :: "event list \<times> (string \<rightharpoonup> (string \<rightharpoonup> string))" where
  "get_market_info =
     ([],
      map_of [(''IRFC'',
               map_of [(''name'', ''Indian Railway Finance Corporation Limited''),
                       (''country'', ''India''),
                       (''symbol'', ''IRFC.NS''),
                       (''description'',
                        ''IRFC - Indian Railway Finance Corporation - Indian Market Focus'')])])"

section \<open>Vocabulary of the specification\<close>

text \<open>
  The specification names the two validation failures \<open>EmptyResultError\<close> and
  \<open>MissingFieldError\<close>. In the code both are a \<open>ValueError\<close>, told apart by the
  message; the market code in the message is always \<open>IRFC\<close> and the symbol \<open>IRFC.NS\<close>,
  since the code has been resolved by then.
\<close>

definition EmptyResultError :: exn where
  "EmptyResultError = ValueError ''No data found for IRFC (IRFC.NS)''"

definition MissingFieldError :: exn where
  "MissingFieldError = ValueError ''Missing required columns for IRFC''"

text \<open>The calls to the provider among the events of a run, in order.\<close>

definition provider_calls :: "event list \<Rightarrow> event list" where
  "provider_calls out = filter (\<lambda>ev. case ev of ProviderCall _ _ _ \<Rightarrow> True | Printed _ \<Rightarrow> False) out"

text \<open>The notices of lines 41 and 58, as the resolved symbol makes them.\<close>

definition downloading_notice :: "string \<Rightarrow> string \<Rightarrow> string" where
  "downloading_notice s e = ''Downloading Indian market data (IRFC.NS) from '' @ s @ '' to '' @ e @ ''...''"

definition downloaded_notice :: "nat \<Rightarrow> string" where
  "downloaded_notice n = [CHR 0xE2, CHR 0x9C, CHR 0x93] @ '' Downloaded '' @ string_of_nat n
                              @ '' samples for Indian market (IRFC)''"

text \<open>
  The columns of a response after line 51 (labels in lower case), and what line 59
  selects from them.
\<close>

definition lowered_cols :: "('d, 'v) DataFrame \<Rightarrow> (string \<times> 'v list) list" where
  "lowered_cols df = map (\<lambda>c. (lower (fst c), snd c)) (cols df)"

definition select_required :: "('d, 'v) DataFrame \<Rightarrow> (string \<times> 'v list) list" where
  "select_required df =
     concat (map (\<lambda>l. filter (\<lambda>c. fst c = l) (lowered_cols df)) required_cols)"

section \<open>Provider stubs\<close>

text \<open>
  Concrete responses on which the model is run. Dates are written as numbers
  (\<open>20200101\<close> for 2020-01-01) and prices as integers.

  The scenario of the specification: six daily rows with the columns
  \<open>[Open, High, Low, Close, Volume, Dividends]\<close>, and what the loader returns for it.
\<close>

definition stub_frame :: "(nat, int) DataFrame" where
  "stub_frame =
     \<lparr>index = [20200101, 20200102, 20200103, 20200106, 20200107, 20200108],
      cols = [(''Open'', [100, 101, 102, 103, 104, 105]),
              (''High'', [110, 111, 112, 113, 114, 115]),
              (''Low'', [90, 91, 92, 93, 94, 95]),
              (''Close'', [105, 106, 107, 108, 109, 110]),
              (''Volume'', [1000, 2000, 3000, 4000, 5000, 6000]),
              (''Dividends'', [0, 0, 0, 0, 0, 0])]\<rparr>"

definition stub_provider :: "(nat, int) provider" where
  "stub_provider symbol start_date end_date =
     (if symbol = ''IRFC.NS'' then Inr stub_frame
      else Inl (Exception ''LookupError'' ''unknown symbol''))"

definition stub_result :: "(nat, int) DataFrame" where
  "stub_result =
     \<lparr>index = [20200101, 20200102, 20200103, 20200106, 20200107, 20200108],
      cols = [(''open'', [100, 101, 102, 103, 104, 105]),
              (''high'', [110, 111, 112, 113, 114, 115]),
              (''low'', [90, 91, 92, 93, 94, 95]),
              (''close'', [105, 106, 107, 108, 109, 110]),
              (''volume'', [1000, 2000, 3000, 4000, 5000, 6000])]\<rparr>"

text \<open>A response with no rows and without the required fields.\<close>

definition no_rows_frame :: "(nat, int) DataFrame" where
  "no_rows_frame = \<lparr>index = [], cols = [(''Open'', []), (''Dividends'', [])]\<rparr>"

definition no_rows_provider :: "(nat, int) provider" where
  "no_rows_provider symbol start_date end_date = Inr no_rows_frame"

text \<open>A response with one row and no \<open>Volume\<close>.\<close>

definition no_volume_frame :: "(nat, int) DataFrame" where
  "no_volume_frame =
     \<lparr>index = [20200101],
      cols = [(''Open'', [100]), (''High'', [110]), (''Low'', [90]), (''Close'', [105])]\<rparr>"

definition no_volume_provider :: "(nat, int) provider" where
  "no_volume_provider symbol start_date end_date = Inr no_volume_frame"

text \<open>A response with two rows and no column at all.\<close>

definition no_columns_frame :: "(nat, int) DataFrame" where
  "no_columns_frame = \<lparr>index = [20200101, 20200102], cols = []\<rparr>"

definition no_columns_provider :: "(nat, int) provider" where
  "no_columns_provider symbol start_date end_date = Inr no_columns_frame"

text \<open>A provider whose call raises.\<close>

definition failing_provider :: "(nat, int) provider" where
  "failing_provider symbol start_date end_date =
     Inl (Exception ''ConnectionError'' ''connection refused'')"

text \<open>
  Responses in which two labels differ only in case, so that they coincide after line 51.
\<close>

definition repeated_close_frame :: "(nat, int) DataFrame" where
  "repeated_close_frame =
     \<lparr>index = [20200101],
      cols = [(''Open'', [100]), (''High'', [110]), (''Low'', [90]), (''Close'', [105]),
              (''close'', [104]), (''Volume'', [1000])]\<rparr>"

definition repeated_close_provider :: "(nat, int) provider" where
  "repeated_close_provider symbol start_date end_date = Inr repeated_close_frame"

definition repeated_close_result :: "(nat, int) DataFrame" where
  "repeated_close_result =
     \<lparr>index = [20200101],
      cols = [(''open'', [100]), (''high'', [110]), (''low'', [90]), (''close'', [105]),
              (''close'', [104]), (''volume'', [1000])]\<rparr>"

definition repeated_volume_frame :: "(nat, int) DataFrame" where
  "repeated_volume_frame =
     \<lparr>index = [20200101],
      cols = [(''Open'', [100]), (''High'', [110]), (''Low'', [90]), (''Close'', [105]),
              (''Volume'', [1000]), (''VOLUME'', [1000])]\<rparr>"

definition repeated_volume_provider :: "(nat, int) provider" where
  "repeated_volume_provider symbol start_date end_date = Inr repeated_volume_frame"

definition repeated_volume_result :: "(nat, int) DataFrame" where
  "repeated_volume_result =
     \<lparr>index = [20200101],
      cols = [(''open'', [100]), (''high'', [110]), (''low'', [90]), (''close'', [105]),
              (''volume'', [1000]), (''volume'', [1000])]\<rparr>"

text \<open>A response whose dates are neither increasing nor distinct.\<close>

definition unordered_frame :: "(nat, int) DataFrame" where
  "unordered_frame =
     \<lparr>index = [20200102, 20200101, 20200101],
      cols = [(''Open'', [100, 101, 101]), (''High'', [110, 111, 111]), (''Low'', [90, 91, 91]),
              (''Close'', [105, 106, 106]), (''Volume'', [1000, 2000, 2000])]\<rparr>"

definition unordered_provider :: "(nat, int) provider" where
  "unordered_provider symbol start_date end_date = Inr unordered_frame"

definition unordered_result :: "(nat, int) DataFrame" where
  "unordered_result =
     \<lparr>index = [20200102, 20200101, 20200101],
      cols = [(''open'', [100, 101, 101]), (''high'', [110, 111, 111]), (''low'', [90, 91, 91]),
              (''close'', [105, 106, 106]), (''volume'', [1000, 2000, 2000])]\<rparr>"

section \<open>Basic facts\<close>

lemma INDIAN_MARKET_IRFC: "INDIAN_MARKET ''IRFC'' = Some ''IRFC.NS''"
  by (simp add: INDIAN_MARKET_def)

lemma INDIAN_MARKET_Some: "INDIAN_MARKET c = Some s \<Longrightarrow> c = ''IRFC'' \<and> s = ''IRFC.NS''"
  by (auto simp: INDIAN_MARKET_def split: if_splits)

lemma INDIAN_MARKET_None: "INDIAN_MARKET c = None \<longleftrightarrow> c \<noteq> ''IRFC''"
  by (auto simp: INDIAN_MARKET_def)

lemma zip_map_fst_snd: "zip (map (f \<circ> fst) xs) (map snd xs) = map (\<lambda>c. (f (fst c), snd c)) xs"
  by (induction xs) auto

lemma set_columns_lower:
  "set_columns df (map lower (columns df)) = Inr (df\<lparr>cols := lowered_cols df\<rparr>)"
  by (simp add: set_columns_def columns_def lowered_cols_def zip_map_fst_snd)

lemma columns_lowered: "map fst (lowered_cols df) = map lower (columns df)"
  by (simp add: lowered_cols_def columns_def)

lemma download_market_data_unfold:
  "download_market_data p c s e =
     (let w = (if c = ''IRFC'' then [] else [Printed (warning_notice c)]);
          out2 = w @ [Printed (downloading_notice s e)];
          t = try_body p ''IRFC'' ''IRFC.NS'' s e
      in case snd t of
           Inl x \<Rightarrow> (out2 @ fst t @ [Printed (failure_notice x)], Inl x)
         | Inr r \<Rightarrow> (out2 @ fst t, Inr r))"
  by (cases "c = ''IRFC''")
     (simp_all add: download_market_data_def INDIAN_MARKET_None INDIAN_MARKET_IRFC
        downloading_notice_def Let_def split: prod.splits sum.splits)

lemma try_body_provider_error:
  "p symb s e = Inl x \<Longrightarrow> try_body p mc symb s e = ([ProviderCall symb s e], Inl x)"
  by (simp add: try_body_def)

lemma try_body_empty:
  "p symb s e = Inr df \<Longrightarrow> empty_df df \<Longrightarrow>
   try_body p mc symb s e =
     ([ProviderCall symb s e], Inl (ValueError (''No data found for '' @ mc @ '' ('' @ symb @ '')'')))"
  by (simp add: try_body_def)

lemma try_body_missing:
  "p symb s e = Inr df \<Longrightarrow> \<not> empty_df df \<Longrightarrow>
   \<not> set required_cols \<subseteq> set (map lower (columns df)) \<Longrightarrow>
   try_body p mc symb s e =
     ([ProviderCall symb s e], Inl (ValueError (''Missing required columns for '' @ mc)))"
  by (auto simp add: try_body_def set_columns_lower columns_def[of "_\<lparr>cols := _\<rparr>"] columns_lowered list_all_iff)

lemma getitem_present:
  "set labels \<subseteq> set (columns df) \<Longrightarrow>
   getitem df labels = Inr (df\<lparr>cols := concat (map (\<lambda>l. filter (\<lambda>c. fst c = l) (cols df)) labels)\<rparr>)"
proof -
  assume "set labels \<subseteq> set (columns df)"
  then have "filter (\<lambda>l. l \<notin> set (columns df)) labels = []"
    by (auto simp: filter_empty_conv)
  then show ?thesis by (simp add: getitem_def)
qed

lemma try_body_ok:
  "p symb s e = Inr df \<Longrightarrow> \<not> empty_df df \<Longrightarrow>
   set required_cols \<subseteq> set (map lower (columns df)) \<Longrightarrow>
   try_body p mc symb s e =
     ([ProviderCall symb s e, Printed (downloaded_notice (len df))],
      Inr (df\<lparr>cols := select_required df\<rparr>))"
  by (simp add: try_body_def set_columns_lower columns_def[of "_\<lparr>cols := _\<rparr>"] columns_lowered
      list_all_iff subset_iff getitem_present select_required_def downloaded_notice_def len_def)

lemma lower_simps:
  "lower ''Open'' = ''open''" "lower ''High'' = ''high''" "lower ''Low'' = ''low''"
  "lower ''Close'' = ''close''" "lower ''Volume'' = ''volume''"
  "lower ''Dividends'' = ''dividends''" "lower ''close'' = ''close''" "lower ''VOLUME'' = ''volume''"
  by (simp_all add: lower_def lower_char_def)

lemma stub_run:
  "download_market_data stub_provider ''IRFC'' ''2020-01-01'' ''2020-01-10'' =
     ([Printed ''Downloading Indian market data (IRFC.NS) from 2020-01-01 to 2020-01-10...'',
       ProviderCall ''IRFC.NS'' ''2020-01-01'' ''2020-01-10'',
       Printed ([CHR 0xE2, CHR 0x9C, CHR 0x93] @ '' Downloaded 6 samples for Indian market (IRFC)'')],
      Inr stub_result)"
  by (simp add: download_market_data_def INDIAN_MARKET_def try_body_def stub_provider_def
      stub_frame_def stub_result_def empty_df_def set_columns_def columns_def lower_simps
      required_cols_def getitem_def len_def)

lemma filter_fst_absent: "l \<notin> set (map fst xs) \<Longrightarrow> filter (\<lambda>c. fst c = l) xs = []"
  by (induction xs) auto

lemma filter_fst_unique:
  "count_list (map fst xs) l = 1 \<Longrightarrow> filter (\<lambda>c. fst c = l) xs = [(l, the (map_of xs l))]"
proof (induction xs)
  case Nil
  then show ?case by simp
next
  case (Cons a xs)
  show ?case
  proof (cases "fst a = l")
    case True
    with Cons.prems have "count_list (map fst xs) l = 0" by simp
    then have "l \<notin> set (map fst xs)" by (simp add: count_list_0_iff)
    then have "filter (\<lambda>c. fst c = l) xs = []" by (rule filter_fst_absent)
    with True show ?thesis by (cases a) simp
  next
    case False
    with Cons show ?thesis by (cases a) auto
  qed
qed

lemma select_required_unique:
  assumes "\<forall>l\<in>set required_cols. count_list (map lower (columns df)) l = 1"
  shows "select_required df = map (\<lambda>l. (l, the (map_of (lowered_cols df) l))) required_cols"
proof -
  have "filter (\<lambda>c. fst c = l) (lowered_cols df) = [(l, the (map_of (lowered_cols df) l))]"
    if "l \<in> set required_cols" for l
    using that assms filter_fst_unique[of "lowered_cols df" l] by (simp add: columns_lowered)
  then show ?thesis
    by (simp add: select_required_def required_cols_def)
qed

lemma select_required_names:
  "set required_cols \<subseteq> set (map lower (columns df)) \<Longrightarrow> set (map fst (select_required df)) = set required_cols"
proof
  show "set (map fst (select_required df)) \<subseteq> set required_cols"
    by (auto simp: select_required_def)
next
  assume a: "set required_cols \<subseteq> set (map lower (columns df))"
  show "set required_cols \<subseteq> set (map fst (select_required df))"
  proof
    fix l assume l: "l \<in> set required_cols"
    with a have "l \<in> fst ` set (lowered_cols df)"
      by (auto simp: columns_lowered[symmetric])
    then obtain c where "c \<in> set (lowered_cols df)" "fst c = l" by auto
    with l show "l \<in> set (map fst (select_required df))"
      by (force simp: select_required_def)
  qed
qed

lemma try_body_cases:
  obtains (provider_error) x where
      "p symb s e = Inl x" "try_body p mc symb s e = ([ProviderCall symb s e], Inl x)"
  | (empty) df where
      "p symb s e = Inr df" "empty_df df"
      "try_body p mc symb s e =
         ([ProviderCall symb s e],
          Inl (ValueError (''No data found for '' @ mc @ '' ('' @ symb @ '')'')))"
  | (missing) df where
      "p symb s e = Inr df" "\<not> empty_df df"
      "\<not> set required_cols \<subseteq> set (map lower (columns df))"
      "try_body p mc symb s e =
         ([ProviderCall symb s e], Inl (ValueError (''Missing required columns for '' @ mc)))"
  | (ok) df where
      "p symb s e = Inr df" "\<not> empty_df df"
      "set required_cols \<subseteq> set (map lower (columns df))"
      "try_body p mc symb s e =
         ([ProviderCall symb s e, Printed (downloaded_notice (len df))],
          Inr (df\<lparr>cols := select_required df\<rparr>))"
proof (cases "p symb s e")
  case (Inl x)
  then show ?thesis using provider_error try_body_provider_error by blast
next
  case (Inr df)
  show ?thesis
  proof (cases "empty_df df")
    case True
    with Inr show ?thesis using empty try_body_empty by blast
  next
    case False
    show ?thesis
    proof (cases "set required_cols \<subseteq> set (map lower (columns df))")
      case True
      with Inr \<open>\<not> empty_df df\<close> show ?thesis using ok try_body_ok by blast
    next
      case False
      with Inr \<open>\<not> empty_df df\<close> show ?thesis using missing try_body_missing by blast
    qed
  qed
qed

lemma download_provider_error:
  assumes "p ''IRFC.NS'' s e = Inl x"
  shows "snd (download_market_data p c s e) = Inl x"
  using assms try_body_provider_error[where p = p and symb = "''IRFC.NS''" and mc = "''IRFC''"]
  by (simp add: download_market_data_unfold)

lemma download_empty:
  assumes "p ''IRFC.NS'' s e = Inr df" "empty_df df"
  shows "snd (download_market_data p c s e) = Inl EmptyResultError"
  using assms try_body_empty[where p = p and symb = "''IRFC.NS''" and mc = "''IRFC''"]
  by (simp add: download_market_data_unfold EmptyResultError_def)

lemma download_missing:
  assumes "p ''IRFC.NS'' s e = Inr df" "\<not> empty_df df"
    "\<not> set required_cols \<subseteq> set (map lower (columns df))"
  shows "snd (download_market_data p c s e) = Inl MissingFieldError"
  using assms try_body_missing[where p = p and symb = "''IRFC.NS''" and mc = "''IRFC''"]
  by (simp add: download_market_data_unfold MissingFieldError_def)

lemma download_ok:
  assumes "p ''IRFC.NS'' s e = Inr df" "\<not> empty_df df"
    "set required_cols \<subseteq> set (map lower (columns df))"
  shows "snd (download_market_data p c s e) = Inr (df\<lparr>cols := select_required df\<rparr>)"
  using assms try_body_ok[where p = p and symb = "''IRFC.NS''" and mc = "''IRFC''"]
  by (simp add: download_market_data_unfold)

lemma download_Inr_D:
  assumes "snd (download_market_data p c s e) = Inr r"
  obtains df where "p ''IRFC.NS'' s e = Inr df" "\<not> empty_df df"
    "set required_cols \<subseteq> set (map lower (columns df))"
    "r = df\<lparr>cols := select_required df\<rparr>"
proof (cases rule: try_body_cases[of p "''IRFC.NS''" s e "''IRFC''"])
  case (provider_error x)
  with assms show ?thesis by (simp add: download_market_data_unfold)
next
  case (empty df)
  with assms show ?thesis by (simp add: download_market_data_unfold)
next
  case (missing df)
  with assms show ?thesis by (simp add: download_market_data_unfold)
next
  case (ok df)
  with assms have "r = df\<lparr>cols := select_required df\<rparr>"
    by (simp add: download_market_data_unfold)
  with ok that show ?thesis by blast
qed

lemma download_Inl_D:
  assumes "snd (download_market_data p c s e) = Inl x"
  shows "p ''IRFC.NS'' s e = Inl x \<or> x = EmptyResultError \<or> x = MissingFieldError"
proof (cases rule: try_body_cases[of p "''IRFC.NS''" s e "''IRFC''"])
  case (provider_error y)
  with assms show ?thesis by (simp add: download_market_data_unfold)
next
  case (empty df)
  with assms show ?thesis by (simp add: download_market_data_unfold EmptyResultError_def)
next
  case (missing df)
  with assms show ?thesis by (simp add: download_market_data_unfold MissingFieldError_def)
next
  case (ok df)
  with assms show ?thesis by (simp add: download_market_data_unfold)
qed

lemma download_Inl_notice:
  assumes "snd (download_market_data p c s e) = Inl x"
  shows "fst (download_market_data p c s e) \<noteq> [] \<and>
         last (fst (download_market_data p c s e)) = Printed (failure_notice x)"
  using assms
  by (auto simp add: download_market_data_unfold Let_def split: sum.splits)

lemma provider_calls_try_body:
  "provider_calls (fst (try_body p mc symb s e)) = [ProviderCall symb s e]"
  by (cases rule: try_body_cases[of p symb s e mc]) (simp_all add: provider_calls_def)

lemma provider_calls_append: "provider_calls (xs @ ys) = provider_calls xs @ provider_calls ys"
  by (simp add: provider_calls_def)

lemma download_provider_calls:
  "provider_calls (fst (download_market_data p c s e)) = [ProviderCall ''IRFC.NS'' s e]"
  using provider_calls_try_body[of p "''IRFC''" "''IRFC.NS''" s e]
  by (auto simp add: download_market_data_unfold Let_def provider_calls_append split: sum.splits)
     (simp_all add: provider_calls_def)

lemma select_required_simple:
  assumes "\<forall>l\<in>set required_cols. count_list (map lower (columns df)) l = 1"
  shows "map fst (select_required df) = required_cols"
  by (simp add: select_required_unique[OF assms] comp_def)

lemma stub_once: "\<forall>l\<in>set required_cols. count_list (map lower (columns stub_frame)) l = 1"
  by (simp add: required_cols_def stub_frame_def columns_def lower_simps)

lemma stub_counts:
  "map (count_list (map lower (columns stub_frame))) required_cols = [1, 1, 1, 1, 1]"
  by (simp add: required_cols_def stub_frame_def columns_def lower_simps)

lemmas run_simps =
  download_market_data_def INDIAN_MARKET_def try_body_def empty_df_def set_columns_def
  columns_def lower_simps required_cols_def getitem_def len_def warning_notice_def
  failure_notice_def

section \<open>The claims\<close>

subsection \<open>C1\<close>



subsection \<open>C2\<close>

text \<open>
  Claim C2. When the provider returns a table with no rows, \<open>download_market_data\<close>
  raises the empty-result error, whatever the columns of the table are: the emptiness
  check comes before the column check, so a table with no rows that also lacks required
  fields raises the empty-result error and not the missing-field error (the two differ).
  Nothing is returned: the outcome is an \<open>Inl\<close>.
\<close>

theorem zero_rows_EmptyResultError:
  assumes "p ''IRFC.NS'' s e = Inr df" and "index df = []"
  shows "snd (download_market_data p code s e) = Inl EmptyResultError
         \<and> EmptyResultError \<noteq> MissingFieldError"
proof -
  from assms(2) have "empty_df df" by (simp add: empty_df_def)
  with assms(1) have "snd (download_market_data p code s e) = Inl EmptyResultError"
    by (rule download_empty)
  then show ?thesis
    by (simp add: EmptyResultError_def MissingFieldError_def ValueError_def)
qed

theorem zero_rows_EmptyResultError_witness:
  "no_rows_provider ''IRFC.NS'' ''2099-01-01'' ''2099-01-10'' = Inr no_rows_frame
   \<and> index no_rows_frame = []
   \<and> \<not> set required_cols \<subseteq> set (map lower (columns no_rows_frame))
   \<and> snd (download_market_data no_rows_provider ''IRFC'' ''2099-01-01'' ''2099-01-10'')
       = Inl (Exception ''ValueError'' ''No data found for IRFC (IRFC.NS)'')"
proof -
  have h1: "no_rows_provider ''IRFC.NS'' ''2099-01-01'' ''2099-01-10'' = Inr no_rows_frame"
    by (simp add: no_rows_provider_def)
  have h2: "index no_rows_frame = []"
    by (simp add: no_rows_frame_def)
  have h3: "\<not> set required_cols \<subseteq> set (map lower (columns no_rows_frame))"
    by (simp add: no_rows_frame_def required_cols_def columns_def lower_simps)
  show ?thesis
    using h1 h2 h3 zero_rows_EmptyResultError[where p = no_rows_provider and df = no_rows_frame
        and s = "''2099-01-01''" and e = "''2099-01-10''" and code = "''IRFC''"]
    by (simp add: EmptyResultError_def ValueError_def)
qed

subsection \<open>C3\<close>

text \<open>
  Claim C3 says that every response with a row in which, with all labels in lower case,
  one of \<open>open\<close>, \<open>high\<close>, \<open>low\<close>, \<open>close\<close>, \<open>volume\<close> is absent raises the
  missing-field error. This fails for a response that has rows and no column at all: it
  lacks all five fields, but \<open>data.empty\<close> is true when either axis is empty, so
  line 48 raises the empty-result error before the columns are looked at.
\<close>

theorem no_columns_counterexample:
  "no_columns_provider ''IRFC.NS'' ''2020-01-01'' ''2020-01-10'' = Inr no_columns_frame
   \<and> index no_columns_frame = [20200101, 20200102]
   \<and> len no_columns_frame = 2
   \<and> \<not> set required_cols \<subseteq> set (map lower (columns no_columns_frame))
   \<and> snd (download_market_data no_columns_provider ''IRFC'' ''2020-01-01'' ''2020-01-10'')
       = Inl (Exception ''ValueError'' ''No data found for IRFC (IRFC.NS)'')
   \<and> snd (download_market_data no_columns_provider ''IRFC'' ''2020-01-01'' ''2020-01-10'')
       \<noteq> Inl MissingFieldError"
  by (simp add: run_simps no_columns_provider_def no_columns_frame_def MissingFieldError_def
      ValueError_def)

text \<open>
  Claim C3, amended. When the provider returns a table with at least one row in which,
  with all labels in lower case, one of \<open>open\<close>, \<open>high\<close>, \<open>low\<close>, \<open>close\<close>,
  \<open>volume\<close> is absent, \<open>download_market_data\<close> returns nothing: it raises the
  missing-field error when the table has at least one column, and the empty-result
  error when it has none.
\<close>

theorem missing_field_MissingFieldError:
  assumes "p ''IRFC.NS'' s e = Inr df" and "index df \<noteq> []"
    and "\<not> set required_cols \<subseteq> set (map lower (columns df))"
  shows "(cols df \<noteq> [] \<longrightarrow> snd (download_market_data p code s e) = Inl MissingFieldError)
         \<and> (cols df = [] \<longrightarrow> snd (download_market_data p code s e) = Inl EmptyResultError)"
proof (intro conjI impI)
  assume "cols df \<noteq> []"
  with assms(2) have "\<not> empty_df df" by (simp add: empty_df_def)
  with assms(1) show "snd (download_market_data p code s e) = Inl MissingFieldError"
    using assms(3) by (rule download_missing)
next
  assume "cols df = []"
  then have "empty_df df" by (simp add: empty_df_def)
  with assms(1) show "snd (download_market_data p code s e) = Inl EmptyResultError"
    by (rule download_empty)
qed

theorem missing_field_MissingFieldError_witness:
  "no_volume_provider ''IRFC.NS'' ''2020-01-01'' ''2020-01-10'' = Inr no_volume_frame
   \<and> index no_volume_frame \<noteq> []
   \<and> cols no_volume_frame \<noteq> []
   \<and> \<not> set required_cols \<subseteq> set (map lower (columns no_volume_frame))
   \<and> snd (download_market_data no_volume_provider ''IRFC'' ''2020-01-01'' ''2020-01-10'')
       = Inl (Exception ''ValueError'' ''Missing required columns for IRFC'')
   \<and> no_columns_provider ''IRFC.NS'' ''2020-01-01'' ''2020-01-10'' = Inr no_columns_frame
   \<and> index no_columns_frame \<noteq> []
   \<and> cols no_columns_frame = []
   \<and> \<not> set required_cols \<subseteq> set (map lower (columns no_columns_frame))
   \<and> snd (download_market_data no_columns_provider ''RELIANCE'' ''2020-01-01'' ''2020-01-10'')
       = Inl (Exception ''ValueError'' ''No data found for IRFC (IRFC.NS)'')"
proof -
  have h1: "no_volume_provider ''IRFC.NS'' ''2020-01-01'' ''2020-01-10'' = Inr no_volume_frame"
    by (simp add: no_volume_provider_def)
  have h2: "index no_volume_frame \<noteq> []" "cols no_volume_frame \<noteq> []"
    by (simp_all add: no_volume_frame_def)
  have h3: "\<not> set required_cols \<subseteq> set (map lower (columns no_volume_frame))"
    by (simp add: no_volume_frame_def required_cols_def columns_def lower_simps)
  have k1: "no_columns_provider ''IRFC.NS'' ''2020-01-01'' ''2020-01-10'' = Inr no_columns_frame"
    by (simp add: no_columns_provider_def)
  have k2: "index no_columns_frame \<noteq> []" "cols no_columns_frame = []"
    by (simp_all add: no_columns_frame_def)
  have k3: "\<not> set required_cols \<subseteq> set (map lower (columns no_columns_frame))"
    by (simp add: no_columns_frame_def required_cols_def columns_def)
  show ?thesis
    using h1 h2 h3 k1 k2 k3
      missing_field_MissingFieldError[where p = no_volume_provider and df = no_volume_frame
        and s = "''2020-01-01''" and e = "''2020-01-10''" and code = "''IRFC''"]
      missing_field_MissingFieldError[where p = no_columns_provider and df = no_columns_frame
        and s = "''2020-01-01''" and e = "''2020-01-10''" and code = "''RELIANCE''"]
    by (simp add: MissingFieldError_def EmptyResultError_def ValueError_def)
qed

subsection \<open>C4\<close>

text \<open>
  Claim C4 says that a non-empty response whose lower-case labels include the five
  required ones is answered with a table of exactly the five columns \<open>open\<close>,
  \<open>high\<close>, \<open>low\<close>, \<open>close\<close>, \<open>volume\<close>, in that order. This fails when two labels
  of the response coincide in lower case: \<open>data[required_cols]\<close> then selects both
  columns. With \<open>Close\<close> and \<open>close\<close> in the response, six columns come back.
\<close>

theorem repeated_close_counterexample:
  "repeated_close_provider ''IRFC.NS'' ''2020-01-01'' ''2020-01-10'' = Inr repeated_close_frame
   \<and> \<not> empty_df repeated_close_frame
   \<and> set required_cols \<subseteq> set (map lower (columns repeated_close_frame))
   \<and> snd (download_market_data repeated_close_provider ''IRFC'' ''2020-01-01'' ''2020-01-10'')
       = Inr repeated_close_result
   \<and> columns repeated_close_result = [''open'', ''high'', ''low'', ''close'', ''close'', ''volume'']
   \<and> columns repeated_close_result \<noteq> required_cols"
  by (simp add: run_simps repeated_close_provider_def repeated_close_frame_def
      repeated_close_result_def)

text \<open>
  Claim C4, amended. For a non-empty response whose lower-case labels include the five
  required ones, \<open>download_market_data\<close> succeeds; the table returned has the rows of
  the response (same index, same length) and no label other than the five required ones,
  each of which it has. When each of the five occurs exactly once among the lower-case
  labels of the response, the table returned has exactly the five columns \<open>open\<close>,
  \<open>high\<close>, \<open>low\<close>, \<open>close\<close>, \<open>volume\<close>, in that order, each with the values of the
  response's column of that lower-case label.
\<close>

theorem five_fields_selected:
  assumes "p ''IRFC.NS'' s e = Inr df" and "\<not> empty_df df"
    and "set required_cols \<subseteq> set (map lower (columns df))"
  shows "\<exists>r. snd (download_market_data p code s e) = Inr r
           \<and> index r = index df \<and> len r = len df
           \<and> set (columns r) = set required_cols
           \<and> ((\<forall>l\<in>set required_cols. count_list (map lower (columns df)) l = 1) \<longrightarrow>
                columns r = [''open'', ''high'', ''low'', ''close'', ''volume'']
                \<and> cols r = map (\<lambda>l. (l, the (map_of (lowered_cols df) l))) required_cols)"
proof -
  let ?r = "df\<lparr>cols := select_required df\<rparr>"
  have res: "snd (download_market_data p code s e) = Inr ?r"
    using assms by (rule download_ok)
  have rows: "index ?r = index df \<and> len ?r = len df"
    by (simp add: len_def)
  have names: "set (columns ?r) = set required_cols"
    using select_required_names[OF assms(3)] by (simp add: columns_def)
  have once: "columns ?r = [''open'', ''high'', ''low'', ''close'', ''volume'']
        \<and> cols ?r = map (\<lambda>l. (l, the (map_of (lowered_cols df) l))) required_cols"
    if u: "\<forall>l\<in>set required_cols. count_list (map lower (columns df)) l = 1"
  proof -
    have "columns ?r = required_cols"
      using select_required_simple[OF u] by (simp add: columns_def)
    then have "columns ?r = [''open'', ''high'', ''low'', ''close'', ''volume'']"
      by (simp only: required_cols_def)
    moreover have "cols ?r = map (\<lambda>l. (l, the (map_of (lowered_cols df) l))) required_cols"
      using select_required_unique[OF u] by simp
    ultimately show ?thesis by (rule conjI)
  qed
  from res rows names once show ?thesis by blast
qed

theorem five_fields_selected_witness:
  "stub_provider ''IRFC.NS'' ''2020-01-01'' ''2020-01-10'' = Inr stub_frame
   \<and> \<not> empty_df stub_frame
   \<and> set required_cols \<subseteq> set (map lower (columns stub_frame))
   \<and> map (count_list (map lower (columns stub_frame))) required_cols = [1, 1, 1, 1, 1]
   \<and> snd (download_market_data stub_provider ''IRFC'' ''2020-01-01'' ''2020-01-10'')
       = Inr stub_result
   \<and> len stub_result = 6
   \<and> columns stub_result = [''open'', ''high'', ''low'', ''close'', ''volume'']"
proof -
  have h1: "stub_provider ''IRFC.NS'' ''2020-01-01'' ''2020-01-10'' = Inr stub_frame"
    by (simp add: stub_provider_def)
  have h2: "\<not> empty_df stub_frame"
    by (simp add: stub_frame_def empty_df_def)
  have h3: "set required_cols \<subseteq> set (map lower (columns stub_frame))"
    by (simp add: required_cols_def stub_frame_def columns_def lower_simps)
  have h4: "len stub_frame = 6"
    by (simp add: stub_frame_def len_def)
  have run: "snd (download_market_data stub_provider ''IRFC'' ''2020-01-01'' ''2020-01-10'')
       = Inr stub_result"
    by (simp add: stub_run)
  show ?thesis
    using h1 h2 h3 h4 run stub_once stub_counts
      five_fields_selected[where p = stub_provider and df = stub_frame
        and s = "''2020-01-01''" and e = "''2020-01-10''" and code = "''IRFC''"]
    by auto
qed

subsection \<open>C5\<close>

text \<open>
  Claim C5 says that every table returned is non-empty and has exactly the five fields.
  The second part fails as for C4: with \<open>Volume\<close> and \<open>VOLUME\<close> in the response, the
  table returned has six columns, two of them labelled \<open>volume\<close>.
\<close>

theorem repeated_volume_counterexample:
  "snd (download_market_data repeated_volume_provider ''IRFC'' ''2020-01-01'' ''2020-01-10'')
       = Inr repeated_volume_result
   \<and> length (cols repeated_volume_result) = 6
   \<and> columns repeated_volume_result = [''open'', ''high'', ''low'', ''close'', ''volume'', ''volume'']"
  by (simp add: run_simps repeated_volume_provider_def repeated_volume_frame_def
      repeated_volume_result_def)

text \<open>
  Claim C5, amended. Every table returned by \<open>download_market_data\<close> has a row and a
  column, and its labels are the five lower-case names \<open>open\<close>, \<open>high\<close>, \<open>low\<close>,
  \<open>close\<close>, \<open>volume\<close> and no other. It comes from a provider response that is not
  empty and has all five among its lower-case labels (so a response that is empty or
  lacks one of them is never returned: the outcome is then an error). When each of the
  five occurs exactly once among the lower-case labels of the response, the table
  returned has exactly the five columns, in that order.
\<close>

theorem returned_series_shape:
  assumes "snd (download_market_data p code s e) = Inr r"
  shows "index r \<noteq> [] \<and> cols r \<noteq> [] \<and> set (columns r) = set required_cols
         \<and> (\<exists>df. p ''IRFC.NS'' s e = Inr df \<and> \<not> empty_df df
                \<and> set required_cols \<subseteq> set (map lower (columns df))
                \<and> ((\<forall>l\<in>set required_cols. count_list (map lower (columns df)) l = 1) \<longrightarrow>
                     columns r = [''open'', ''high'', ''low'', ''close'', ''volume'']))"
proof -
  from assms obtain df where df: "p ''IRFC.NS'' s e = Inr df" "\<not> empty_df df"
    "set required_cols \<subseteq> set (map lower (columns df))"
    and r: "r = df\<lparr>cols := select_required df\<rparr>"
    by (rule download_Inr_D)
  from df(2) r have rows: "index r \<noteq> []"
    by (simp add: empty_df_def)
  have names: "set (columns r) = set required_cols"
    using select_required_names[OF df(3)] r by (simp add: columns_def)
  then have "set (map fst (cols r)) \<noteq> {}"
    by (simp add: columns_def required_cols_def)
  then have nonempty: "cols r \<noteq> []" by auto
  have once: "columns r = [''open'', ''high'', ''low'', ''close'', ''volume'']"
    if u: "\<forall>l\<in>set required_cols. count_list (map lower (columns df)) l = 1"
    using select_required_simple[OF u] r by (simp add: columns_def required_cols_def)
  from rows nonempty names df once show ?thesis by blast
qed

theorem returned_series_shape_witness:
  "snd (download_market_data stub_provider ''IRFC'' ''2020-01-01'' ''2020-01-10'') = Inr stub_result
   \<and> map (count_list (map lower (columns stub_frame))) required_cols = [1, 1, 1, 1, 1]
   \<and> index stub_result \<noteq> [] \<and> cols stub_result \<noteq> []
   \<and> set (columns stub_result) = set required_cols
   \<and> columns stub_result = [''open'', ''high'', ''low'', ''close'', ''volume'']"
proof -
  have h: "snd (download_market_data stub_provider ''IRFC'' ''2020-01-01'' ''2020-01-10'') = Inr stub_result"
    by (simp add: stub_run)
  have d: "stub_provider ''IRFC.NS'' ''2020-01-01'' ''2020-01-10'' = Inr stub_frame"
    by (simp add: stub_provider_def)
  show ?thesis
    using h d stub_once stub_counts
      returned_series_shape[where p = stub_provider and r = stub_result
        and s = "''2020-01-01''" and e = "''2020-01-10''" and code = "''IRFC''"]
    by auto
qed

subsection \<open>C6\<close>

text \<open>
  Claim C6. \<open>get_market_info\<close> returns a dictionary with exactly one entry, under the
  key \<open>IRFC\<close> (the only key of \<open>INDIAN_MARKET\<close>); the entry has the keys \<open>name\<close>,
  \<open>country\<close>, \<open>symbol\<close> and \<open>description\<close>, each with a non-empty string, the
  symbol being the provider symbol of \<open>INDIAN_MARKET\<close>. The method has no events: it
  prints nothing and does not call the provider. It takes no input, so its result is the
  same at every call.
\<close>

theorem get_market_info_single_entry:
  "fst get_market_info = []
   \<and> dom (snd get_market_info) = {''IRFC''}
   \<and> dom (snd get_market_info) = dom INDIAN_MARKET
   \<and> (\<exists>d name country symbol description.
         snd get_market_info ''IRFC'' = Some d
         \<and> dom d = {''name'', ''country'', ''symbol'', ''description''}
         \<and> d ''name'' = Some name \<and> name \<noteq> []
         \<and> d ''country'' = Some country \<and> country \<noteq> []
         \<and> d ''symbol'' = Some symbol \<and> symbol \<noteq> [] \<and> INDIAN_MARKET ''IRFC'' = Some symbol
         \<and> d ''description'' = Some description \<and> description \<noteq> [])"
  by (auto simp add: get_market_info_def INDIAN_MARKET_def)

subsection \<open>C7\<close>

text \<open>
  Claim C7 says that the dates of every table returned are unique and strictly
  increasing. The loader neither sorts nor checks the index, so a response whose dates
  are out of order or repeated is returned with these dates.
\<close>

theorem unordered_counterexample:
  "snd (download_market_data unordered_provider ''IRFC'' ''2020-01-01'' ''2020-01-10'')
       = Inr unordered_result
   \<and> index unordered_result = [20200102, 20200101, 20200101]
   \<and> \<not> sorted_wrt (<) (index unordered_result)
   \<and> \<not> distinct (index unordered_result)"
  by (simp add: run_simps unordered_provider_def unordered_frame_def unordered_result_def)

text \<open>
  Claim C7, amended. Every table returned by \<open>download_market_data\<close> carries the index
  of the provider's response, unchanged and in the provider's order; its dates are
  strictly increasing, hence unique, whenever those of the response are.
\<close>

theorem index_passed_through:
  fixes p :: "('d::linorder, 'v) provider"
  assumes "snd (download_market_data p code s e) = Inr r"
  shows "\<exists>df. p ''IRFC.NS'' s e = Inr df \<and> index r = index df
           \<and> (sorted_wrt (<) (index df) \<longrightarrow> sorted_wrt (<) (index r) \<and> distinct (index r))"
proof -
  from assms obtain df where df: "p ''IRFC.NS'' s e = Inr df"
    and r: "r = df\<lparr>cols := select_required df\<rparr>"
    by (rule download_Inr_D)
  from r have "index r = index df" by simp
  with df show ?thesis by (auto simp: strict_sorted_iff)
qed

theorem index_passed_through_witness:
  "snd (download_market_data stub_provider ''IRFC'' ''2020-01-01'' ''2020-01-10'') = Inr stub_result
   \<and> sorted_wrt (<) (index stub_frame)
   \<and> index stub_result = index stub_frame
   \<and> sorted_wrt (<) (index stub_result) \<and> distinct (index stub_result)"
proof -
  have h: "snd (download_market_data stub_provider ''IRFC'' ''2020-01-01'' ''2020-01-10'') = Inr stub_result"
    by (simp add: stub_run)
  have d: "stub_provider ''IRFC.NS'' ''2020-01-01'' ''2020-01-10'' = Inr stub_frame"
    by (simp add: stub_provider_def)
  have o: "sorted_wrt (<) (index stub_frame)"
    by (simp add: stub_frame_def)
  show ?thesis
    using h d o
      index_passed_through[where p = stub_provider and r = stub_result
        and s = "''2020-01-01''" and e = "''2020-01-10''" and code = "''IRFC''"]
    by auto
qed

subsection \<open>C8\<close>

text \<open>
  Claim C8. Every failure inside \<open>download_market_data\<close> reaches the caller as it was
  raised: an exception raised by the provider call comes out unchanged; an empty
  response comes out as the empty-result error of line 48; a response that is not empty
  and lacks a required field comes out as the missing-field error of line 56. None of
  them is recovered into a returned table. Conversely every exception that leaves
  \<open>download_market_data\<close> is one of these three, and the last line printed before it
  is the diagnostic of line 62 with the text of that exception. In every run the
  provider is called exactly once: nothing is retried.
\<close>

theorem failures_propagate:
  "(p ''IRFC.NS'' s e = Inl x \<longrightarrow> snd (download_market_data p code s e) = Inl x)
   \<and> (p ''IRFC.NS'' s e = Inr df \<and> empty_df df \<longrightarrow>
        snd (download_market_data p code s e) = Inl EmptyResultError)
   \<and> (p ''IRFC.NS'' s e = Inr df \<and> \<not> empty_df df
        \<and> \<not> set required_cols \<subseteq> set (map lower (columns df)) \<longrightarrow>
        snd (download_market_data p code s e) = Inl MissingFieldError)
   \<and> (snd (download_market_data p code s e) = Inl x \<longrightarrow>
        (p ''IRFC.NS'' s e = Inl x \<or> x = EmptyResultError \<or> x = MissingFieldError)
        \<and> fst (download_market_data p code s e) \<noteq> []
        \<and> last (fst (download_market_data p code s e))
            = Printed ([CHR 0xE2, CHR 0x9D, CHR 0x8C] @ '' Failed to download Indian market data: '' @ str x))
   \<and> provider_calls (fst (download_market_data p code s e)) = [ProviderCall ''IRFC.NS'' s e]"
proof (intro conjI impI)
  assume "p ''IRFC.NS'' s e = Inl x"
  then show "snd (download_market_data p code s e) = Inl x"
    by (rule download_provider_error)
next
  assume "p ''IRFC.NS'' s e = Inr df \<and> empty_df df"
  then show "snd (download_market_data p code s e) = Inl EmptyResultError"
    using download_empty by blast
next
  assume "p ''IRFC.NS'' s e = Inr df \<and> \<not> empty_df df
        \<and> \<not> set required_cols \<subseteq> set (map lower (columns df))"
  then show "snd (download_market_data p code s e) = Inl MissingFieldError"
    using download_missing by blast
next
  assume "snd (download_market_data p code s e) = Inl x"
  then show "p ''IRFC.NS'' s e = Inl x \<or> x = EmptyResultError \<or> x = MissingFieldError"
    by (rule download_Inl_D)
next
  assume "snd (download_market_data p code s e) = Inl x"
  then show "fst (download_market_data p code s e) \<noteq> []"
    using download_Inl_notice by blast
next
  assume "snd (download_market_data p code s e) = Inl x"
  then have "last (fst (download_market_data p code s e)) = Printed (failure_notice x)"
    using download_Inl_notice by blast
  then show "last (fst (download_market_data p code s e))
            = Printed ([CHR 0xE2, CHR 0x9D, CHR 0x8C] @ '' Failed to download Indian market data: '' @ str x)"
    by (simp only: failure_notice_def)
next
  show "provider_calls (fst (download_market_data p code s e)) = [ProviderCall ''IRFC.NS'' s e]"
    by (rule download_provider_calls)
qed

theorem failures_propagate_witness:
  "failing_provider ''IRFC.NS'' ''2020-01-01'' ''2020-01-10''
     = Inl (Exception ''ConnectionError'' ''connection refused'')
   \<and> download_market_data failing_provider ''IRFC'' ''2020-01-01'' ''2020-01-10'' =
       ([Printed ''Downloading Indian market data (IRFC.NS) from 2020-01-01 to 2020-01-10...'',
         ProviderCall ''IRFC.NS'' ''2020-01-01'' ''2020-01-10'',
         Printed ([CHR 0xE2, CHR 0x9D, CHR 0x8C]
                  @ '' Failed to download Indian market data: connection refused'')],
        Inl (Exception ''ConnectionError'' ''connection refused''))
   \<and> no_rows_provider ''IRFC.NS'' ''2099-01-01'' ''2099-01-10'' = Inr no_rows_frame
   \<and> empty_df no_rows_frame
   \<and> download_market_data no_rows_provider ''IRFC'' ''2099-01-01'' ''2099-01-10'' =
       ([Printed ''Downloading Indian market data (IRFC.NS) from 2099-01-01 to 2099-01-10...'',
         ProviderCall ''IRFC.NS'' ''2099-01-01'' ''2099-01-10'',
         Printed ([CHR 0xE2, CHR 0x9D, CHR 0x8C]
                  @ '' Failed to download Indian market data: No data found for IRFC (IRFC.NS)'')],
        Inl (Exception ''ValueError'' ''No data found for IRFC (IRFC.NS)''))
   \<and> no_volume_provider ''IRFC.NS'' ''2020-01-01'' ''2020-01-10'' = Inr no_volume_frame
   \<and> \<not> empty_df no_volume_frame
   \<and> \<not> set required_cols \<subseteq> set (map lower (columns no_volume_frame))
   \<and> download_market_data no_volume_provider ''IRFC'' ''2020-01-01'' ''2020-01-10'' =
       ([Printed ''Downloading Indian market data (IRFC.NS) from 2020-01-01 to 2020-01-10...'',
         ProviderCall ''IRFC.NS'' ''2020-01-01'' ''2020-01-10'',
         Printed ([CHR 0xE2, CHR 0x9D, CHR 0x8C]
                  @ '' Failed to download Indian market data: Missing required columns for IRFC'')],
        Inl (Exception ''ValueError'' ''Missing required columns for IRFC''))
   \<and> provider_calls (fst (download_market_data failing_provider ''IRFC'' ''2020-01-01'' ''2020-01-10''))
       = [ProviderCall ''IRFC.NS'' ''2020-01-01'' ''2020-01-10'']"
proof -
  have h: "failing_provider ''IRFC.NS'' ''2020-01-01'' ''2020-01-10''
     = Inl (Exception ''ConnectionError'' ''connection refused'')"
    by (simp add: failing_provider_def)
  have run: "download_market_data failing_provider ''IRFC'' ''2020-01-01'' ''2020-01-10'' =
       ([Printed ''Downloading Indian market data (IRFC.NS) from 2020-01-01 to 2020-01-10...'',
         ProviderCall ''IRFC.NS'' ''2020-01-01'' ''2020-01-10'',
         Printed ([CHR 0xE2, CHR 0x9D, CHR 0x8C]
                  @ '' Failed to download Indian market data: connection refused'')],
        Inl (Exception ''ConnectionError'' ''connection refused''))"
    by (simp add: run_simps failing_provider_def)
  have e1: "no_rows_provider ''IRFC.NS'' ''2099-01-01'' ''2099-01-10'' = Inr no_rows_frame"
    by (simp add: no_rows_provider_def)
  have e2: "empty_df no_rows_frame"
    by (simp add: no_rows_frame_def empty_df_def)
  have e3: "download_market_data no_rows_provider ''IRFC'' ''2099-01-01'' ''2099-01-10'' =
       ([Printed ''Downloading Indian market data (IRFC.NS) from 2099-01-01 to 2099-01-10...'',
         ProviderCall ''IRFC.NS'' ''2099-01-01'' ''2099-01-10'',
         Printed ([CHR 0xE2, CHR 0x9D, CHR 0x8C]
                  @ '' Failed to download Indian market data: No data found for IRFC (IRFC.NS)'')],
        Inl (Exception ''ValueError'' ''No data found for IRFC (IRFC.NS)''))"
    by (simp add: run_simps no_rows_provider_def no_rows_frame_def ValueError_def)
  have m1: "no_volume_provider ''IRFC.NS'' ''2020-01-01'' ''2020-01-10'' = Inr no_volume_frame"
    by (simp add: no_volume_provider_def)
  have m2: "\<not> empty_df no_volume_frame"
    by (simp add: no_volume_frame_def empty_df_def)
  have m3: "\<not> set required_cols \<subseteq> set (map lower (columns no_volume_frame))"
    by (simp add: no_volume_frame_def required_cols_def columns_def lower_simps)
  have m4: "download_market_data no_volume_provider ''IRFC'' ''2020-01-01'' ''2020-01-10'' =
       ([Printed ''Downloading Indian market data (IRFC.NS) from 2020-01-01 to 2020-01-10...'',
         ProviderCall ''IRFC.NS'' ''2020-01-01'' ''2020-01-10'',
         Printed ([CHR 0xE2, CHR 0x9D, CHR 0x8C]
                  @ '' Failed to download Indian market data: Missing required columns for IRFC'')],
        Inl (Exception ''ValueError'' ''Missing required columns for IRFC''))"
    by (simp add: run_simps no_volume_provider_def no_volume_frame_def ValueError_def)
  have calls: "provider_calls (fst (download_market_data failing_provider ''IRFC'' ''2020-01-01'' ''2020-01-10''))
       = [ProviderCall ''IRFC.NS'' ''2020-01-01'' ''2020-01-10'']"
    using failures_propagate[where p = failing_provider and s = "''2020-01-01''"
        and e = "''2020-01-10''" and code = "''IRFC''"
        and x = "Exception ''ConnectionError'' ''connection refused''" and df = no_rows_frame]
    by blast
  have "snd (download_market_data no_rows_provider ''IRFC'' ''2099-01-01'' ''2099-01-10'')
          = Inl EmptyResultError"
    using e1 e2 failures_propagate[where p = no_rows_provider and s = "''2099-01-01''"
        and e = "''2099-01-10''" and code = "''IRFC''" and df = no_rows_frame
        and x = EmptyResultError]
    by blast
  moreover have "snd (download_market_data no_volume_provider ''IRFC'' ''2020-01-01'' ''2020-01-10'')
          = Inl MissingFieldError"
    using m1 m2 m3 failures_propagate[where p = no_volume_provider and s = "''2020-01-01''"
        and e = "''2020-01-10''" and code = "''IRFC''" and df = no_volume_frame
        and x = MissingFieldError]
    by blast
  ultimately show ?thesis
    using h run e1 e2 e3 m1 m2 m3 m4 calls by simp
qed

subsection \<open>C9\<close>

text \<open>
  Claim C9. \<open>download_indian_market(start_date, end_date)\<close> has the outcome of
  \<open>download_market_data("IRFC", start_date, end_date)\<close>: the same table returned or the
  same exception raised. Its events are those of that call after one more printed line
  (line 76).
\<close>

theorem download_indian_market_eq:
  "snd (download_indian_market p s e) = snd (download_market_data p ''IRFC'' s e)
   \<and> fst (download_indian_market p s e)
       = Printed (''Downloading Indian market (IRFC - Indian Railway Finance Corporation) data from ''
                  @ s @ '' to '' @ e @ ''...'')
         # fst (download_market_data p ''IRFC'' s e)"
  by (simp add: download_indian_market_def split: prod.splits)

subsection \<open>C10\<close>

text \<open>
  Claim C10. A call of \<open>download_market_data\<close> with no argument is the call with
  \<open>"IRFC"\<close>, \<open>"2005-01-01"\<close> and \<open>"2022-03-31"\<close>; \<open>download_indian_market\<close> has
  the same two defaults for its dates. Each omitted argument takes its default whatever
  the other arguments are.
\<close>

theorem default_arguments:
  "download_market_data_call p None None None
     = download_market_data p ''IRFC'' ''2005-01-01'' ''2022-03-31''
   \<and> download_indian_market_call p None None
       = download_indian_market p ''2005-01-01'' ''2022-03-31''
   \<and> download_market_data_call p market_code start_date end_date
       = download_market_data p
           (case market_code of None \<Rightarrow> ''IRFC'' | Some c \<Rightarrow> c)
           (case start_date of None \<Rightarrow> ''2005-01-01'' | Some s \<Rightarrow> s)
           (case end_date of None \<Rightarrow> ''2022-03-31'' | Some e \<Rightarrow> e)
   \<and> download_indian_market_call p start_date end_date
       = download_indian_market p
           (case start_date of None \<Rightarrow> ''2005-01-01'' | Some s \<Rightarrow> s)
           (case end_date of None \<Rightarrow> ''2022-03-31'' | Some e \<Rightarrow> e)"
  by (simp add: download_market_data_call_def download_indian_market_call_def)

end
